theory Spec2Isabelle
  imports Main "HOL-Library.Multiset"
begin

section \<open>Content Registry (src/app/resources/content.js)\<close>

text \<open>
  The registry is a module of object literals. Each literal becomes a record (or a list
  of records) with the field values of the source. Template literals are evaluated by
  \<open>template\<close>: the literal pieces and the substituted expressions are interleaved, starting
  and ending with a literal piece.
\<close>

fun template :: "string list \<Rightarrow> string list \<Rightarrow> string" where
  "template [] es = []"
| "template (q # qs) [] = q @ template qs []"
| "template (q # qs) (e # es) = q @ e @ template qs es"

record person =
  firstName :: string
  lastName :: string
  role :: string
  avatar :: string
  email :: string
  location :: string
  languages :: "string list"

text \<open>The getter \<^verbatim>\<open>get name() { return `${this.firstName} ${this.lastName}`; }\<close>.\<close>

definition get_name :: "person \<Rightarrow> string" where
  "get_name this = template ['''', '' '', ''''] [firstName this, lastName this]"

definition the_person :: person where
  "the_person =
     \<lparr>firstName = ''Kevin'',
      lastName = ''Okinedo'',
      role = ''Software Engineer'',
      avatar = ''/images/avatar.jpg'',
      email = ''kokinedo@gmail.com'',
      location = ''America/New_York'',
      languages = [''English'']\<rparr>"

record social_link =
  name :: string
  icon :: string
  link :: string

definition social :: "social_link list" where
  "social =
     [\<lparr>name = ''GitHub'', icon = ''github'', link = ''https://github.com/kokinedo''\<rparr>,
      \<lparr>name = ''LinkedIn'', icon = ''linkedin'',
       link = ''https://www.linkedin.com/in/kevin-okinedo-39538719b/''\<rparr>,
      \<lparr>name = ''X'', icon = ''x'', link = ''''\<rparr>,
      \<lparr>name = ''Email'', icon = ''email'',
       link = template [''mailto:'', ''''] [email the_person]\<rparr>]"

text \<open>
  The entries of \<^verbatim>\<open>about.work.experiences\<close>. An achievement is a fragment holding one
  run of text; the model keeps the text.
\<close>

record work_experience =
  company :: string
  timeframe :: string
  work_role :: string
  achievements :: "string list"
  images :: "string list"

definition experiences :: "work_experience list" where
  "experiences = [
  \<lparr>company = ''Splunk Inc.'',
   timeframe = ''May 2023 - Present'',
   work_role = ''Senior Software Engineer'',
   achievements = [
     ''Revamped the Anomaly application UI using React, integrating LLM-powered insights that enhanced user experience and reduced analysis time by 40%.'',
     ''Led development of a confidential AI project utilizing LlamaIndex for RAG implementation, building the entire front-end codebase with real-time LLM interaction capabilities.'',
     ''Implemented advanced MLOps pipelines using TensorFlow and PyTorch for fine-tuning large language models, reducing inference latency by 30% and improving model accuracy by 15%.'',
     ''Designed scalable Node.js architecture supporting 10,000+ concurrent users with vector database integration for semantic search, achieving 50ms average response times.'',
     ''Built real-time data processing pipeline using Kafka and Spark for LLM training data preparation, processing 100,000+ events per second for continuous model improvement.''],
   images = []\<rparr>,
  \<lparr>company = ''Microsoft Inc.'',
   timeframe = ''Aug 2021 - May 2023'',
   work_role = ''Software Engineer II'',
   achievements = [
     ''Led development team building AI-enhanced software applications, implementing GPT-3 integration across Microsoft products with 100% on-time delivery record.'',
     ''Designed ETL pipelines for training data preparation using Python and SQL, optimizing transformer model training workflows and data quality validation.'',
     ''Enhanced search algorithms with transformer-based semantic understanding, implementing BERT models for natural language query processing and improving search relevance by 35%.'',
     ''Developed .NET microservices for AI model serving using Azure ML, implementing efficient message queuing with RabbitMQ for distributed inference requests.'',
     ''Architected data governance solutions on Azure for LLM training datasets, ensuring compliance and implementing automated data lineage tracking for model auditing.''],
   images = []\<rparr>,
  \<lparr>company = ''Asset-Map Inc.'',
   timeframe = ''Jan 2020 - Jul 2021'',
   work_role = ''Software Engineer II'',
   achievements = [
     ''Enhanced search capabilities using Elasticsearch and Node.js with NLP preprocessing, implementing entity recognition and semantic query expansion to improve search precision by 40%.'',
     ''Built intelligent URL validation system in Angular using machine learning models, reducing false positives by 60% and cutting support workload by 25%.'',
     ''Developed Python-based financial simulation engine with natural language interfaces, enabling users to configure complex scenarios through conversational AI, optimizing workflow efficiency.'',
     ''Spearheaded cloud migration from GCP to AWS, implementing containerized ML model serving with Kubernetes, Aurora databases, and infrastructure-as-code using CloudFormation.'',
     ''Created intelligent automation scripts using Python and PowerShell with anomaly detection capabilities, reducing manual intervention by 70% through predictive maintenance algorithms.''],
   images = []\<rparr>,
  \<lparr>company = ''Kined Systems Inc.'',
   timeframe = ''Mar 2017 - Nov 2019'',
   work_role = ''Software Engineer'',
   achievements = [
     ''Developed Golang-based knowledge management platform utilizing early transformer architectures and graph neural networks for intelligent document processing and relationship extraction.'',
     ''Implemented secure API integration layer using Java for multi-modal data processing, enabling seamless interaction between NLP models and various enterprise databases.'',
     ''Built knowledge graph platform using Golang, Ruby on Rails, and GraphQL, incorporating word embeddings and entity linking for semantic content organization and retrieval.'',
     ''Created intelligent data extraction agents using Golang with custom NLP pipelines, implementing named entity recognition and sentiment analysis for automated content processing.'',
     ''Architected event-driven microservices with Spring Boot and Kafka, designing scalable infrastructure for processing millions of text documents daily with ML-powered content classification.''],
   images = []\<rparr>,
  \<lparr>company = ''McKinsey & Company Inc.'',
   timeframe = ''Apr 2015 - Feb 2017'',
   work_role = ''Full Stack Developer'',
   achievements = [
     ''Built responsive web applications using React with integrated machine learning components, implementing predictive analytics dashboards for client engagement optimization.'',
     ''Developed internal applications using React, Angular, and Node.js with embedded ML models for text analysis, enabling automated insight generation from business documents.'',
     ''Designed RESTful APIs in Java and C# supporting machine learning workflows, implementing efficient data pipelines for training traditional ML models on client datasets.'',
     ''Enhanced employee learning platforms by implementing recommendation algorithms using Python and scikit-learn, personalizing content delivery and improving engagement by 25%.'',
     ''Optimized front-end performance through intelligent caching and predictive loading algorithms, achieving 15% performance improvement in data-heavy analytical applications.''],
   images = []\<rparr>]"

section \<open>Post Collection (src/app/blog/posts)\<close>

text \<open>
  A post is an MDX document: a front-matter block of \<open>key: "value"\<close> lines between two
  \<open>---\<close> lines, then the body. The body is opaque to everything below and is left out;
  the front matter is the list of its key/value pairs in the order of the document. The
  sources hold eight posts: four in named files, three in files whose names are not
  known, and one that follows the first post inside \<^verbatim>\<open>quick-start.mdx\<close>.
\<close>

type_synonym front_matter = "(string \<times> string) list"

text \<open>\<^verbatim>\<open>src/app/blog/posts/blog.mdx\<close>\<close>

definition blog_mdx :: front_matter where
  "blog_mdx =
     [(''title'',
       ''Building Production-Ready AI Applications: Architecture & Implementation''),
      (''summary'',
       ''Learn to build scalable AI applications with RAG, vector databases, API design, and production deployment strategies for real-world AI systems.''),
      (''publishedAt'', ''2025-01-22''),
      (''tag'', ''AI Applications'')]"

text \<open>\<^verbatim>\<open>src/app/blog/posts/design.mdx\<close>\<close>

definition design_mdx :: front_matter where
  "design_mdx =
     [(''title'', ''Computer Vision and Multimodal AI: Beyond Text Generation''),
      (''summary'',
       ''Explore advanced computer vision architectures, multimodal AI systems, and techniques for building AI that understands both visual and textual data.''),
      (''publishedAt'', ''2025-02-02''),
      (''tag'', ''Computer Vision'')]"

text \<open>
  \<^verbatim>\<open>src/app/blog/posts/quick-start.mdx\<close>, lines 1 to 178: the first of the two documents
  that the source holds under this name.
\<close>

definition quick_start_mdx :: front_matter where
  "quick_start_mdx =
     [(''title'', ''AI Engineering Best Practices: From Research to Production''),
      (''summary'',
       ''Essential practices for building robust, scalable AI systems. Learn MLOps, model deployment, monitoring, and production-ready AI engineering workflows.''),
      (''image'', ''/images/og/home.jpg''),
      (''publishedAt'', ''2025-01-15''),
      (''tag'', ''AI Engineering'')]"

text \<open>\<^verbatim>\<open>src/app/blog/posts/work.mdx\<close>\<close>

definition work_mdx :: front_matter where
  "work_mdx =
     [(''title'',
       ''LLM Fine-tuning Strategies: From LoRA to Full Parameter Training''),
      (''summary'',
       ''Master the art of fine-tuning large language models. Deep dive into LoRA, QLoRA, full fine-tuning, and advanced techniques for optimal performance.''),
      (''publishedAt'', ''2025-01-18''),
      (''tag'', ''LLM Engineering'')]"

text \<open>A post file whose name is not known (the Neural Network Optimization post).\<close>

definition part_001 :: front_matter where
  "part_001 =
     [(''title'',
       ''Neural Network Optimization: Advanced Techniques for AI Engineers''),
      (''summary'',
       ''Master advanced optimization techniques including adaptive learning rates, gradient scaling, architecture search, and hardware-specific optimizations for neural networks.''),
      (''publishedAt'', ''2025-01-28''),
      (''tag'', ''Deep Learning'')]"

text \<open>A post file whose name is not known (the Transformer Architectures post).\<close>

definition part_002 :: front_matter where
  "part_002 =
     [(''title'',
       ''Transformer Architectures Deep Dive: From Attention to Modern LLMs''),
      (''summary'',
       ''Comprehensive exploration of transformer architectures, attention mechanisms, positional encoding, and recent innovations like RoPE and FlashAttention.''),
      (''publishedAt'', ''2025-01-25''),
      (''tag'', ''Deep Learning'')]"

text \<open>A post file whose name is not known (the Advanced Prompt Engineering post).\<close>

definition part_003 :: front_matter where
  "part_003 =
     [(''title'', ''Advanced Prompt Engineering: Beyond Basic Instructions''),
      (''summary'',
       ''Master sophisticated prompt engineering techniques including chain-of-thought, tree-of-thought, and context optimization for maximum LLM performance.''),
      (''publishedAt'', ''2025-01-20''),
      (''tag'', ''Prompt Engineering'')]"

text \<open>
  \<^verbatim>\<open>src/app/blog/posts/quick-start.mdx\<close>, from line 178 on: after a document separator the
  source goes on with a second document, with front matter and a body of its own. It is
  a post like the others, the AI Ethics and Safety post; its file name is not known.
\<close>

definition quick_start_mdx_tail :: front_matter where
  "quick_start_mdx_tail =
     [(''title'', ''AI Ethics and Safety: Responsible AI Development''),
      (''summary'',
       ''Essential principles and practices for building ethical AI systems, including bias mitigation, fairness, transparency, and safety considerations.''),
      (''publishedAt'', ''2025-01-30''),
      (''tag'', ''AI Ethics'')]"

definition post_files :: "front_matter list" where
  "post_files =
     [blog_mdx, design_mdx, quick_start_mdx, work_mdx, part_001, part_002, part_003,
      quick_start_mdx_tail]"

definition required_keys :: "string list" where
  "required_keys = [''title'', ''summary'', ''publishedAt'']"

definition has_key :: "front_matter \<Rightarrow> string \<Rightarrow> bool" where
  "has_key fm k = (map_of fm k \<noteq> None)"

subsection \<open>Calendar dates\<close>

text \<open>
  The repository holds no date parser: posts are read by the listing renderer, which is
  not among the sources. The spec asks for a \<open>publishedAt\<close> of shape \<open>YYYY-MM-DD\<close> that parses
  as a valid calendar date. The definitions of this subsection give that reading, with the
  Gregorian month lengths.
\<close>

record date =
  year :: nat
  month :: nat
  day :: nat

definition is_digit :: "char \<Rightarrow> bool" where
  "is_digit c = (48 \<le> (of_char c :: nat) \<and> (of_char c :: nat) \<le> 57)"

definition digit_val :: "char \<Rightarrow> nat" where
  "digit_val c = of_char c - 48"

definition number :: "string \<Rightarrow> nat" where
  "number ds = foldl (\<lambda>n c. 10 * n + digit_val c) 0 ds"

definition iso_shape :: "string \<Rightarrow> bool" where
  "iso_shape s =
     (length s = 10 \<and> list_all is_digit (take 4 s) \<and> s ! 4 = CHR ''-''
      \<and> list_all is_digit (take 2 (drop 5 s)) \<and> s ! 7 = CHR ''-''
      \<and> list_all is_digit (drop 8 s))"

definition leap_year :: "nat \<Rightarrow> bool" where
  "leap_year y = (y mod 4 = 0 \<and> (y mod 100 \<noteq> 0 \<or> y mod 400 = 0))"

definition days_in_month :: "nat \<Rightarrow> nat \<Rightarrow> nat" where
  "days_in_month y m =
     (if m = 2 then (if leap_year y then 29 else 28)
      else if m = 4 \<or> m = 6 \<or> m = 9 \<or> m = 11 then 30 else 31)"

definition valid_date :: "date \<Rightarrow> bool" where
  "valid_date d =
     (1 \<le> month d \<and> month d \<le> 12 \<and> 1 \<le> day d \<and> day d \<le> days_in_month (year d) (month d))"

text \<open>
  Modelled from the spec: the date parser of the listing renderer, which is missing from
  the sources. A string is a date when it has the shape \<open>YYYY-MM-DD\<close> and names a day of
  the calendar.
\<close>

definition parse_date :: "string \<Rightarrow> date option" where
  "parse_date s =
     (if iso_shape s then
        (let d = \<lparr>year = number (take 4 s), month = number (take 2 (drop 5 s)),
                  day = number (drop 8 s)\<rparr>
         in if valid_date d then Some d else None)
      else None)"

text \<open>
  Chronological order is the order of day numbers: the days from 0000-01-01 up to and
  including the date.
\<close>

definition days_before_year :: "nat \<Rightarrow> nat" where
  "days_before_year y = 365 * y + (y + 3) div 4 - (y + 99) div 100 + (y + 399) div 400"

definition days_before_month :: "nat \<Rightarrow> nat \<Rightarrow> nat" where
  "days_before_month y m =
     sum_list (map (days_in_month y) (filter (\<lambda>k. k < m) [1, 2, 3, 4, 5, 6, 7, 8, 9, 10, 11, 12]))"

definition day_number :: "date \<Rightarrow> nat" where
  "day_number d = days_before_year (year d) + days_before_month (year d) (month d) + day d"

datatype cmp = LT | EQ | GT

definition compare_nat :: "nat \<Rightarrow> nat \<Rightarrow> cmp" where
  "compare_nat a b = (if a < b then LT else if b < a then GT else EQ)"

text \<open>Comparing two strings as calendar dates; \<open>None\<close> when one of them is not a date.\<close>

definition compare_chrono :: "string \<Rightarrow> string \<Rightarrow> cmp option" where
  "compare_chrono s t =
     (case parse_date s of
        None \<Rightarrow> None
      | Some d \<Rightarrow>
          (case parse_date t of
             None \<Rightarrow> None
           | Some e \<Rightarrow> Some (compare_nat (day_number d) (day_number e))))"

text \<open>Comparing two strings character by character, by character code.\<close>

fun compare_lex :: "string \<Rightarrow> string \<Rightarrow> cmp" where
  "compare_lex [] [] = EQ"
| "compare_lex [] (b # bs) = LT"
| "compare_lex (a # as) [] = GT"
| "compare_lex (a # as) (b # bs) =
     (if (of_char a :: nat) < of_char b then LT
      else if (of_char b :: nat) < of_char a then GT
      else compare_lex as bs)"

subsection \<open>Post enumeration\<close>

text \<open>
  The listing renderer is not among the sources. By the spec it reads every file of the
  collection into a BlogPost (front matter \<open>title\<close>, \<open>summary\<close>, \<open>publishedAt\<close> date, \<open>tag\<close>,
  optional \<open>image\<close>), fails loudly on a file that lacks a required key or carries no
  parseable date, and returns the posts sorted by \<open>publishedAt\<close>, descending.
\<close>

record blog_post =
  title :: string
  summary :: string
  publishedAt :: date
  tag :: "string option"
  image :: "string option"

datatype error = MissingKey string | InvalidDate string

text \<open>
  Modelled from the spec: reading one file, which the missing listing renderer does. The
  keys \<open>title\<close>, \<open>summary\<close> and \<open>publishedAt\<close> are required, \<open>tag\<close> and \<open>image\<close> are taken when
  present.
\<close>

definition read_post :: "front_matter \<Rightarrow> error + blog_post" where
  "read_post fm =
     (case map_of fm ''title'' of
        None \<Rightarrow> Inl (MissingKey ''title'')
      | Some t \<Rightarrow>
          (case map_of fm ''summary'' of
             None \<Rightarrow> Inl (MissingKey ''summary'')
           | Some s \<Rightarrow>
               (case map_of fm ''publishedAt'' of
                  None \<Rightarrow> Inl (MissingKey ''publishedAt'')
                | Some p \<Rightarrow>
                    (case parse_date p of
                       None \<Rightarrow> Inl (InvalidDate p)
                     | Some d \<Rightarrow>
                         Inr \<lparr>title = t, summary = s, publishedAt = d,
                              tag = map_of fm ''tag'', image = map_of fm ''image''\<rparr>))))"

text \<open>
  Modelled from the spec: reading the files of a directory in turn; the first file that
  fails makes the whole listing fail.
\<close>

fun read_all :: "front_matter list \<Rightarrow> error + blog_post list" where
  "read_all [] = Inr []"
| "read_all (fm # fms) =
     (case read_post fm of
        Inl e \<Rightarrow> Inl e
      | Inr p \<Rightarrow> (case read_all fms of Inl e \<Rightarrow> Inl e | Inr ps \<Rightarrow> Inr (p # ps)))"

definition date_key :: "blog_post \<Rightarrow> nat" where
  "date_key p = day_number (publishedAt p)"

text \<open>
  Modelled from the spec: the sort of the missing listing renderer, by \<open>publishedAt\<close>,
  descending. It is a stable insertion sort: a post stays ahead of the later posts of its
  date.
\<close>

fun insert_desc :: "blog_post \<Rightarrow> blog_post list \<Rightarrow> blog_post list" where
  "insert_desc p [] = [p]"
| "insert_desc p (q # qs) =
     (if date_key p < date_key q then q # insert_desc p qs else p # q # qs)"

fun sort_posts :: "blog_post list \<Rightarrow> blog_post list" where
  "sort_posts [] = []"
| "sort_posts (p # ps) = insert_desc p (sort_posts ps)"

text \<open>
  Modelled from the spec: post enumeration, the operation of the missing listing renderer:
  read every file, then sort.
\<close>

definition enumerate_posts :: "front_matter list \<Rightarrow> error + blog_post list" where
  "enumerate_posts fms =
     (case read_all fms of Inl e \<Rightarrow> Inl e | Inr ps \<Rightarrow> Inr (sort_posts ps))"

text \<open>What "ordered by \<open>publishedAt\<close>, descending" says of a list of posts.\<close>

definition sorted_desc :: "blog_post list \<Rightarrow> bool" where
  "sorted_desc ps = sorted_wrt (\<lambda>a b. date_key b \<le> date_key a) ps"

text \<open>
  The Post Collection as BlogPosts, in the order of \<open>post_files\<close>. Reading the eight posts
  does not fail (\<open>read_all_post_files\<close> below), so the case of a failure is never taken.
\<close>

definition post_collection :: "blog_post list" where
  "post_collection = (case read_all post_files of Inl e \<Rightarrow> [] | Inr ps \<Rightarrow> ps)"



section \<open>Properties of the Content Registry\<close>

text \<open>
  C3. The derived name is the first name, one blank and the last name, whatever the two
  fields hold; for the person of the registry it is "Kevin Okinedo".
\<close>

theorem C3_get_name:
  "get_name (p\<lparr>firstName := f, lastName := l\<rparr>) = f @ '' '' @ l
   \<and> get_name p = firstName p @ '' '' @ lastName p
   \<and> get_name the_person = ''Kevin Okinedo''"
  by (simp add: get_name_def the_person_def)

text \<open>
  C7. Every entry of the social list has a non-empty name and a non-empty icon; the
  entries are GitHub, LinkedIn, X and Email.
\<close>

theorem C7_social_names_icons:
  "(\<forall>s\<in>set social. name s \<noteq> [] \<and> icon s \<noteq> [])
   \<and> map name social = [''GitHub'', ''LinkedIn'', ''X'', ''Email'']"
  by (simp add: social_def)

theorem C7_social_names_icons_witness:
  "social ! 2 \<in> set social \<and> name (social ! 2) = ''X''
   \<and> name (social ! 2) \<noteq> [] \<and> icon (social ! 2) \<noteq> []"
proof -
  have m: "social ! 2 \<in> set social" by (simp add: social_def)
  from C7_social_names_icons have "\<forall>s\<in>set social. name s \<noteq> [] \<and> icon s \<noteq> []" ..
  from this m have "name (social ! 2) \<noteq> [] \<and> icon (social ! 2) \<noteq> []" ..
  moreover have "name (social ! 2) = ''X''" by (simp add: social_def)
  ultimately show ?thesis using m by simp
qed

text \<open>
  C8. The X entry is the one entry of the social list whose link is the empty string;
  GitHub, LinkedIn and Email carry a link.
\<close>

theorem C8_only_x_unset:
  "filter (\<lambda>s. link s = []) social = [\<lparr>name = ''X'', icon = ''x'', link = ''''\<rparr>]
   \<and> map name (filter (\<lambda>s. link s \<noteq> []) social) = [''GitHub'', ''LinkedIn'', ''Email'']
   \<and> map link social =
        [''https://github.com/kokinedo'',
         ''https://www.linkedin.com/in/kevin-okinedo-39538719b/'', '''',
         ''mailto:kokinedo@gmail.com'']"
  by (simp add: social_def the_person_def)

text \<open>
  C9. Each of the five work experiences has the empty list of images.
\<close>

theorem C9_experiences_no_images:
  "(\<forall>e\<in>set experiences. images e = [])
   \<and> map company experiences =
        [''Splunk Inc.'', ''Microsoft Inc.'', ''Asset-Map Inc.'', ''Kined Systems Inc.'',
         ''McKinsey & Company Inc.'']"
  by (simp add: experiences_def)

theorem C9_experiences_no_images_witness:
  "experiences ! 1 \<in> set experiences \<and> company (experiences ! 1) = ''Microsoft Inc.''
   \<and> images (experiences ! 1) = []"
proof -
  have m: "experiences ! 1 \<in> set experiences" by (simp add: experiences_def)
  from C9_experiences_no_images have "\<forall>e\<in>set experiences. images e = []" ..
  from this m have "images (experiences ! 1) = []" ..
  moreover have "company (experiences ! 1) = ''Microsoft Inc.''" by (simp add: experiences_def)
  ultimately show ?thesis using m by simp
qed

section \<open>Evaluating the Post Collection\<close>

text \<open>
  The facts below evaluate the model on the eight posts. They keep the long strings out
  of the later proofs, which only use these facts.
\<close>

lemmas file_defs =
  blog_mdx_def design_mdx_def quick_start_mdx_def work_mdx_def part_001_def part_002_def
  part_003_def quick_start_mdx_tail_def

lemmas date_defs =
  parse_date_def iso_shape_def is_digit_def number_def digit_val_def valid_date_def
  days_in_month_def leap_year_def Let_def

lemmas day_defs =
  day_number_def days_before_year_def days_before_month_def days_in_month_def leap_year_def

lemma parse_dates:
  "parse_date ''2025-01-22'' = Some \<lparr>year = 2025, month = 1, day = 22\<rparr>"
  "parse_date ''2025-02-02'' = Some \<lparr>year = 2025, month = 2, day = 2\<rparr>"
  "parse_date ''2025-01-15'' = Some \<lparr>year = 2025, month = 1, day = 15\<rparr>"
  "parse_date ''2025-01-18'' = Some \<lparr>year = 2025, month = 1, day = 18\<rparr>"
  "parse_date ''2025-01-28'' = Some \<lparr>year = 2025, month = 1, day = 28\<rparr>"
  "parse_date ''2025-01-25'' = Some \<lparr>year = 2025, month = 1, day = 25\<rparr>"
  "parse_date ''2025-01-20'' = Some \<lparr>year = 2025, month = 1, day = 20\<rparr>"
  "parse_date ''2025-01-30'' = Some \<lparr>year = 2025, month = 1, day = 30\<rparr>"
  by (simp_all add: date_defs)

lemma day_numbers:
  "map_option day_number (parse_date ''2025-01-22'') = Some 739639"
  "map_option day_number (parse_date ''2025-02-02'') = Some 739650"
  "map_option day_number (parse_date ''2025-01-15'') = Some 739632"
  "map_option day_number (parse_date ''2025-01-18'') = Some 739635"
  "map_option day_number (parse_date ''2025-01-28'') = Some 739645"
  "map_option day_number (parse_date ''2025-01-25'') = Some 739642"
  "map_option day_number (parse_date ''2025-01-20'') = Some 739637"
  "map_option day_number (parse_date ''2025-01-30'') = Some 739647"
  by (simp_all add: parse_dates day_defs)

lemma published_strings:
  "map (\<lambda>fm. map_of fm ''publishedAt'') post_files =
     [Some ''2025-01-22'', Some ''2025-02-02'', Some ''2025-01-15'', Some ''2025-01-18'',
      Some ''2025-01-28'', Some ''2025-01-25'', Some ''2025-01-20'', Some ''2025-01-30'']"
  by (simp add: post_files_def file_defs)

lemmas pc_defs = post_collection_def post_files_def file_defs read_post_def parse_dates

lemma read_all_post_files: "read_all post_files = Inr post_collection"
  by (simp add: pc_defs)

lemma length_post_collection: "length post_collection = 8"
  by (simp add: pc_defs)

lemma dates_post_collection:
  "map publishedAt post_collection =
     [\<lparr>year = 2025, month = 1, day = 22\<rparr>, \<lparr>year = 2025, month = 2, day = 2\<rparr>,
      \<lparr>year = 2025, month = 1, day = 15\<rparr>, \<lparr>year = 2025, month = 1, day = 18\<rparr>,
      \<lparr>year = 2025, month = 1, day = 28\<rparr>, \<lparr>year = 2025, month = 1, day = 25\<rparr>,
      \<lparr>year = 2025, month = 1, day = 20\<rparr>, \<lparr>year = 2025, month = 1, day = 30\<rparr>]"
  by (simp add: pc_defs)

lemma keys_post_collection:
  "map date_key post_collection =
     [739639, 739650, 739632, 739635, 739645, 739642, 739637, 739647]"
  by (simp add: pc_defs date_key_def day_defs)

lemma titles_post_collection:
  "map title post_collection =
    [''Building Production-Ready AI Applications: Architecture & Implementation'',
     ''Computer Vision and Multimodal AI: Beyond Text Generation'',
     ''AI Engineering Best Practices: From Research to Production'',
     ''LLM Fine-tuning Strategies: From LoRA to Full Parameter Training'',
     ''Neural Network Optimization: Advanced Techniques for AI Engineers'',
     ''Transformer Architectures Deep Dive: From Attention to Modern LLMs'',
     ''Advanced Prompt Engineering: Beyond Basic Instructions'',
     ''AI Ethics and Safety: Responsible AI Development'']"
  by (simp add: pc_defs)

section \<open>The descending sort\<close>

lemma mset_insert_desc: "mset (insert_desc p ps) = add_mset p (mset ps)"
  by (induction ps) auto

lemma mset_sort_posts: "mset (sort_posts ps) = mset ps"
  by (induction ps) (auto simp: mset_insert_desc)

lemma set_insert_desc: "set (insert_desc p ps) = insert p (set ps)"
  by (induction ps) auto

lemma sorted_insert_desc: "sorted_desc ps \<Longrightarrow> sorted_desc (insert_desc p ps)"
  unfolding sorted_desc_def by (induction ps) (auto simp: set_insert_desc)

lemma sorted_sort_posts: "sorted_desc (sort_posts ps)"
proof (induction ps)
  case Nil
  show ?case by (simp add: sorted_desc_def)
next
  case (Cons p ps)
  then show ?case by (simp add: sorted_insert_desc)
qed

lemma insert_desc_sorted: "sorted_desc (p # ps) \<Longrightarrow> insert_desc p ps = p # ps"
  unfolding sorted_desc_def by (cases ps) auto

lemma sort_posts_sorted: "sorted_desc ps \<Longrightarrow> sort_posts ps = ps"
proof (induction ps)
  case Nil
  show ?case by simp
next
  case (Cons p ps)
  from Cons.prems have "sorted_desc ps" by (simp add: sorted_desc_def)
  with Cons.IH have "sort_posts ps = ps" .
  with Cons.prems show ?case by (simp add: insert_desc_sorted)
qed

lemma sort_posts_idem: "sort_posts (sort_posts ps) = sort_posts ps"
  by (rule sort_posts_sorted) (rule sorted_sort_posts)

section \<open>Positions in a sorted enumeration\<close>




text \<open>The order in which the collection is enumerated.\<close>

lemma sorted_dates:
  "map publishedAt (sort_posts post_collection) =
     [\<lparr>year = 2025, month = 2, day = 2\<rparr>, \<lparr>year = 2025, month = 1, day = 30\<rparr>,
      \<lparr>year = 2025, month = 1, day = 28\<rparr>, \<lparr>year = 2025, month = 1, day = 25\<rparr>,
      \<lparr>year = 2025, month = 1, day = 22\<rparr>, \<lparr>year = 2025, month = 1, day = 20\<rparr>,
      \<lparr>year = 2025, month = 1, day = 18\<rparr>, \<lparr>year = 2025, month = 1, day = 15\<rparr>]"
  by (simp add: pc_defs date_key_def day_defs)

section \<open>Properties of the front matter\<close>

lemma parse_date_Some: "parse_date s = Some d \<Longrightarrow> iso_shape s \<and> valid_date d"
  by (auto simp: parse_date_def Let_def split: if_splits)

lemma post_files_readable:
  "\<forall>fm\<in>set post_files.
     (\<forall>k\<in>set required_keys. has_key fm k)
     \<and> (\<exists>s d. map_of fm ''publishedAt'' = Some s \<and> parse_date s = Some d)"
  by (simp add: post_files_def file_defs required_keys_def has_key_def parse_dates)

text \<open>
  C2. Each of the eight posts of the collection (the four named files, the three files
  whose names are not known and the second document of \<^verbatim>\<open>quick-start.mdx\<close>) supplies the
  keys \<open>title\<close>, \<open>summary\<close> and \<open>publishedAt\<close>, and its \<open>publishedAt\<close> has the shape
  YYYY-MM-DD and is read as a valid calendar date.
\<close>

theorem C2_front_matter_complete:
  "length post_files = 8
   \<and> (\<forall>fm\<in>set post_files.
        (\<forall>k\<in>set required_keys. has_key fm k)
        \<and> (\<exists>s d. map_of fm ''publishedAt'' = Some s \<and> iso_shape s
                  \<and> parse_date s = Some d \<and> valid_date d))"
proof
  show "length post_files = 8" by (simp add: post_files_def)
  show "\<forall>fm\<in>set post_files.
          (\<forall>k\<in>set required_keys. has_key fm k)
          \<and> (\<exists>s d. map_of fm ''publishedAt'' = Some s \<and> iso_shape s
                    \<and> parse_date s = Some d \<and> valid_date d)"
    using post_files_readable parse_date_Some by blast
qed

lemma tail_published: "map_of quick_start_mdx_tail ''publishedAt'' = Some ''2025-01-30''"
  by (simp add: quick_start_mdx_tail_def)

theorem C2_front_matter_complete_witness:
  "quick_start_mdx_tail \<in> set post_files
   \<and> has_key quick_start_mdx_tail ''title'' \<and> has_key quick_start_mdx_tail ''summary''
   \<and> has_key quick_start_mdx_tail ''publishedAt''
   \<and> map_of quick_start_mdx_tail ''publishedAt'' = Some ''2025-01-30''
   \<and> iso_shape ''2025-01-30''
   \<and> parse_date ''2025-01-30'' = Some \<lparr>year = 2025, month = 1, day = 30\<rparr>
   \<and> valid_date \<lparr>year = 2025, month = 1, day = 30\<rparr>"
proof -
  have m: "quick_start_mdx_tail \<in> set post_files" by (simp add: post_files_def)
  from C2_front_matter_complete have
    "\<forall>fm\<in>set post_files.
        (\<forall>k\<in>set required_keys. has_key fm k)
        \<and> (\<exists>s d. map_of fm ''publishedAt'' = Some s \<and> iso_shape s
                  \<and> parse_date s = Some d \<and> valid_date d)" ..
  from this m have
    "(\<forall>k\<in>set required_keys. has_key quick_start_mdx_tail k)
     \<and> (\<exists>s d. map_of quick_start_mdx_tail ''publishedAt'' = Some s \<and> iso_shape s
               \<and> parse_date s = Some d \<and> valid_date d)" ..
  then show ?thesis
    using m by (simp add: required_keys_def tail_published parse_dates)
qed

lemma tail_is_eighth:
  "quick_start_mdx_tail \<notin>
     set [blog_mdx, design_mdx, quick_start_mdx, work_mdx, part_001, part_002, part_003]"
proof
  assume "quick_start_mdx_tail \<in>
     set [blog_mdx, design_mdx, quick_start_mdx, work_mdx, part_001, part_002, part_003]"
  then have "map_of quick_start_mdx_tail ''publishedAt'' \<in>
     (\<lambda>fm. map_of fm ''publishedAt'') `
       set [blog_mdx, design_mdx, quick_start_mdx, work_mdx, part_001, part_002, part_003]"
    by (rule imageI)
  then show False
    by (simp add: file_defs)
qed

text \<open>
  The collection is not one of seven posts: the second document of \<^verbatim>\<open>quick-start.mdx\<close> is
  a post too, and it is none of the other seven.
\<close>

theorem C2_seven_posts_counterexample:
  "length post_files \<noteq> 7
   \<and> quick_start_mdx_tail \<in> set post_files
   \<and> quick_start_mdx_tail \<notin>
       set [blog_mdx, design_mdx, quick_start_mdx, work_mdx, part_001, part_002, part_003]"
  using tail_is_eighth by (simp add: post_files_def)

text \<open>
  C6. In every post of the collection, the second document of \<^verbatim>\<open>quick-start.mdx\<close>
  included, the title and the summary are non-empty strings, and so they are in the
  posts read from the front matter.
\<close>

theorem C6_title_summary_nonempty:
  "(\<forall>fm\<in>set post_files.
      \<exists>t s. map_of fm ''title'' = Some t \<and> t \<noteq> [] \<and> map_of fm ''summary'' = Some s \<and> s \<noteq> [])
   \<and> (\<forall>p\<in>set post_collection. title p \<noteq> [] \<and> summary p \<noteq> [])"
proof
  show "\<forall>fm\<in>set post_files.
      \<exists>t s. map_of fm ''title'' = Some t \<and> t \<noteq> [] \<and> map_of fm ''summary'' = Some s \<and> s \<noteq> []"
    by (simp add: post_files_def file_defs)
  show "\<forall>p\<in>set post_collection. title p \<noteq> [] \<and> summary p \<noteq> []"
    by (simp add: pc_defs)
qed

theorem C6_title_summary_nonempty_witness:
  "quick_start_mdx_tail \<in> set post_files
   \<and> (\<exists>t s. map_of quick_start_mdx_tail ''title'' = Some t \<and> t \<noteq> []
         \<and> map_of quick_start_mdx_tail ''summary'' = Some s \<and> s \<noteq> [])
   \<and> post_collection ! 7 \<in> set post_collection
   \<and> title (post_collection ! 7) \<noteq> [] \<and> summary (post_collection ! 7) \<noteq> []"
proof -
  have m: "quick_start_mdx_tail \<in> set post_files" by (simp add: post_files_def)
  have n: "post_collection ! 7 \<in> set post_collection" by (simp add: length_post_collection)
  from C6_title_summary_nonempty have
    files: "\<forall>fm\<in>set post_files.
      \<exists>t s. map_of fm ''title'' = Some t \<and> t \<noteq> [] \<and> map_of fm ''summary'' = Some s \<and> s \<noteq> []"
    and posts: "\<forall>p\<in>set post_collection. title p \<noteq> [] \<and> summary p \<noteq> []"
    by blast+
  from files m have
    f: "\<exists>t s. map_of quick_start_mdx_tail ''title'' = Some t \<and> t \<noteq> []
        \<and> map_of quick_start_mdx_tail ''summary'' = Some s \<and> s \<noteq> []" ..
  from posts n have
    p: "title (post_collection ! 7) \<noteq> [] \<and> summary (post_collection ! 7) \<noteq> []" ..
  from m f n p show ?thesis by (intro conjI) blast+
qed

section \<open>Lexicographic and chronological order\<close>

lemma published_in:
  assumes "f \<in> set post_files"
  shows "\<exists>s\<in>set [''2025-01-22'', ''2025-02-02'', ''2025-01-15'', ''2025-01-18'',
                  ''2025-01-28'', ''2025-01-25'', ''2025-01-20'', ''2025-01-30''].
           map_of f ''publishedAt'' = Some s"
proof -
  from assms have
    "map_of f ''publishedAt'' \<in> set (map (\<lambda>fm. map_of fm ''publishedAt'') post_files)"
    by simp
  then show ?thesis unfolding published_strings by auto
qed

lemma compare_agree:
  "\<forall>s\<in>set [''2025-01-22'', ''2025-02-02'', ''2025-01-15'', ''2025-01-18'',
             ''2025-01-28'', ''2025-01-25'', ''2025-01-20'', ''2025-01-30''].
   \<forall>t\<in>set [''2025-01-22'', ''2025-02-02'', ''2025-01-15'', ''2025-01-18'',
             ''2025-01-28'', ''2025-01-25'', ''2025-01-20'', ''2025-01-30''].
     compare_chrono s t = Some (compare_lex s t)"
  by (simp add: compare_chrono_def parse_dates day_defs compare_nat_def)

text \<open>
  C4. For every two posts of the collection (all 64 pairs of the eight posts), comparing
  the \<open>publishedAt\<close> strings character by character gives the result of comparing them as
  calendar dates.
\<close>

theorem C4_lexicographic_is_chronological:
  "\<forall>f\<in>set post_files. \<forall>g\<in>set post_files.
     \<exists>s t. map_of f ''publishedAt'' = Some s \<and> map_of g ''publishedAt'' = Some t
           \<and> compare_chrono s t = Some (compare_lex s t)"
proof (intro ballI)
  fix f g
  assume "f \<in> set post_files" and "g \<in> set post_files"
  then obtain s t where
    s: "s \<in> set [''2025-01-22'', ''2025-02-02'', ''2025-01-15'', ''2025-01-18'',
                 ''2025-01-28'', ''2025-01-25'', ''2025-01-20'', ''2025-01-30'']"
       "map_of f ''publishedAt'' = Some s" and
    t: "t \<in> set [''2025-01-22'', ''2025-02-02'', ''2025-01-15'', ''2025-01-18'',
                 ''2025-01-28'', ''2025-01-25'', ''2025-01-20'', ''2025-01-30'']"
       "map_of g ''publishedAt'' = Some t"
    using published_in by meson
  from s(1) t(1) have "compare_chrono s t = Some (compare_lex s t)"
    using compare_agree by blast
  with s(2) t(2) show
    "\<exists>s t. map_of f ''publishedAt'' = Some s \<and> map_of g ''publishedAt'' = Some t
          \<and> compare_chrono s t = Some (compare_lex s t)"
    by blast
qed

lemma design_published: "map_of design_mdx ''publishedAt'' = Some ''2025-02-02''"
  by (simp add: design_mdx_def)

lemma quick_start_published: "map_of quick_start_mdx ''publishedAt'' = Some ''2025-01-15''"
  by (simp add: quick_start_mdx_def)

theorem C4_lexicographic_is_chronological_witness:
  "design_mdx \<in> set post_files \<and> quick_start_mdx \<in> set post_files
   \<and> map_of design_mdx ''publishedAt'' = Some ''2025-02-02''
   \<and> map_of quick_start_mdx ''publishedAt'' = Some ''2025-01-15''
   \<and> compare_lex ''2025-02-02'' ''2025-01-15'' = GT
   \<and> compare_chrono ''2025-02-02'' ''2025-01-15'' = Some GT"
proof -
  have d: "design_mdx \<in> set post_files" and q: "quick_start_mdx \<in> set post_files"
    by (simp_all add: post_files_def)
  from C4_lexicographic_is_chronological d q have
    "\<exists>s t. map_of design_mdx ''publishedAt'' = Some s
        \<and> map_of quick_start_mdx ''publishedAt'' = Some t
        \<and> compare_chrono s t = Some (compare_lex s t)"
    by blast
  then have "compare_chrono ''2025-02-02'' ''2025-01-15''
      = Some (compare_lex ''2025-02-02'' ''2025-01-15'')"
    by (simp add: design_published quick_start_published)
  moreover have "compare_lex ''2025-02-02'' ''2025-01-15'' = GT"
    by simp
  ultimately show ?thesis
    using d q by (simp add: design_published quick_start_published)
qed

section \<open>Properties of the enumeration\<close>















text \<open>
  C5. Sorting by \<open>publishedAt\<close>, newest first, is idempotent: sorting the enumerated
  collection again, and indeed any sorted list of posts, changes nothing.
\<close>

theorem C5_sort_idempotent:
  "enumerate_posts post_files = Inr (sort_posts post_collection)
   \<and> sort_posts (sort_posts post_collection) = sort_posts post_collection
   \<and> (\<forall>ps. sort_posts (sort_posts ps) = sort_posts ps)"
  by (simp add: enumerate_posts_def read_all_post_files sort_posts_idem)

theorem C5_sort_idempotent_witness:
  "enumerate_posts post_files = Inr (sort_posts post_collection)
   \<and> map publishedAt (sort_posts (sort_posts post_collection)) =
       [\<lparr>year = 2025, month = 2, day = 2\<rparr>, \<lparr>year = 2025, month = 1, day = 30\<rparr>,
        \<lparr>year = 2025, month = 1, day = 28\<rparr>, \<lparr>year = 2025, month = 1, day = 25\<rparr>,
        \<lparr>year = 2025, month = 1, day = 22\<rparr>, \<lparr>year = 2025, month = 1, day = 20\<rparr>,
        \<lparr>year = 2025, month = 1, day = 18\<rparr>, \<lparr>year = 2025, month = 1, day = 15\<rparr>]
   \<and> sort_posts (sort_posts (rev post_collection)) = sort_posts (rev post_collection)"
proof -
  from C5_sort_idempotent have e: "enumerate_posts post_files = Inr (sort_posts post_collection)"
    and c: "sort_posts (sort_posts post_collection) = sort_posts post_collection"
    and a: "\<forall>ps. sort_posts (sort_posts ps) = sort_posts ps"
    by blast+
  from a have r: "sort_posts (sort_posts (rev post_collection)) = sort_posts (rev post_collection)" ..
  from c have "map publishedAt (sort_posts (sort_posts post_collection))
     = map publishedAt (sort_posts post_collection)" by (rule arg_cong)
  with e r show ?thesis unfolding sorted_dates by (intro conjI)
qed

lemma sorted_desc_unique:
  assumes dist: "distinct (map date_key ps)"
    and ys: "mset ys = mset ps" "sorted_desc ys"
    and zs: "mset zs = mset ps" "sorted_desc zs"
  shows "ys = zs"
proof -
  have sets: "set ys = set ps" "set zs = set ps"
    using ys(1) zs(1) by (auto dest: mset_eq_setD)
  have inj: "inj_on date_key (set ys \<union> set zs)"
    using dist sets by (simp add: distinct_map)
  have keys: "mset (map date_key ys) = mset (map date_key ps)"
      "mset (map date_key zs) = mset (map date_key ps)"
    using ys(1) zs(1) by simp_all
  have dy: "distinct (rev (map date_key ys))"
    using keys(1) dist by (metis distinct_rev mset_eq_imp_distinct_iff)
  have dz: "distinct (rev (map date_key zs))"
    using keys(2) dist by (metis distinct_rev mset_eq_imp_distinct_iff)
  have sy: "sorted (rev (map date_key ys))"
    using ys(2) by (simp add: sorted_desc_def sorted_wrt_rev sorted_wrt_map flip: rev_map)
  have sz: "sorted (rev (map date_key zs))"
    using zs(2) by (simp add: sorted_desc_def sorted_wrt_rev sorted_wrt_map flip: rev_map)
  have "set (rev (map date_key ys)) = set (rev (map date_key zs))"
    using sets by simp
  with sy dy sz dz have "rev (map date_key ys) = rev (map date_key zs)"
    by (rule sorted_distinct_set_unique)
  then have "map date_key ys = map date_key zs" by simp
  with inj show ?thesis by (simp add: inj_on_map_eq_map)
qed

lemma distinct_keys: "distinct (map date_key post_collection)"
  unfolding keys_post_collection by simp

text \<open>
  C10. The \<open>publishedAt\<close> values of the eight posts are 2025-02-02, 2025-01-30, 2025-01-28,
  2025-01-25, 2025-01-22, 2025-01-20, 2025-01-18 and 2025-01-15, no two of them equal, so
  no two posts tie, and the collection has only one enumeration ordered newest first.
\<close>

theorem C10_dates_distinct:
  "mset (map (\<lambda>fm. map_of fm ''publishedAt'') post_files) =
     mset [Some ''2025-02-02'', Some ''2025-01-30'', Some ''2025-01-28'', Some ''2025-01-25'',
           Some ''2025-01-22'', Some ''2025-01-20'', Some ''2025-01-18'', Some ''2025-01-15'']
   \<and> distinct (map (\<lambda>fm. map_of fm ''publishedAt'') post_files)
   \<and> distinct (map date_key post_collection)
   \<and> (\<forall>ys zs. mset ys = mset post_collection \<and> sorted_desc ys
                \<and> mset zs = mset post_collection \<and> sorted_desc zs \<longrightarrow> ys = zs)"
proof (intro conjI allI impI)
  show "mset (map (\<lambda>fm. map_of fm ''publishedAt'') post_files) =
     mset [Some ''2025-02-02'', Some ''2025-01-30'', Some ''2025-01-28'', Some ''2025-01-25'',
           Some ''2025-01-22'', Some ''2025-01-20'', Some ''2025-01-18'', Some ''2025-01-15'']"
    unfolding published_strings by simp
  show "distinct (map (\<lambda>fm. map_of fm ''publishedAt'') post_files)"
    unfolding published_strings by simp
  show "distinct (map date_key post_collection)"
    by (rule distinct_keys)
  fix ys zs
  assume "mset ys = mset post_collection \<and> sorted_desc ys
            \<and> mset zs = mset post_collection \<and> sorted_desc zs"
  then show "ys = zs"
    using sorted_desc_unique [OF distinct_keys] by blast
qed

theorem C10_dates_distinct_witness:
  "mset (sort_posts post_collection) = mset post_collection
   \<and> sorted_desc (sort_posts post_collection)
   \<and> mset (sort_posts (rev post_collection)) = mset post_collection
   \<and> sorted_desc (sort_posts (rev post_collection))
   \<and> sort_posts post_collection = sort_posts (rev post_collection)"
proof -
  have h: "mset (sort_posts post_collection) = mset post_collection
      \<and> sorted_desc (sort_posts post_collection)
      \<and> mset (sort_posts (rev post_collection)) = mset post_collection
      \<and> sorted_desc (sort_posts (rev post_collection))"
    by (simp add: mset_sort_posts sorted_sort_posts)
  from C10_dates_distinct have
    "\<forall>ys zs. mset ys = mset post_collection \<and> sorted_desc ys
        \<and> mset zs = mset post_collection \<and> sorted_desc zs \<longrightarrow> ys = zs"
    by (elim conjE)
  with h have "sort_posts post_collection = sort_posts (rev post_collection)"
    by blast
  with h show ?thesis by simp
qed

text \<open>
  The dates are not the seven of 2025-02-02, 2025-01-28, 2025-01-25, 2025-01-22,
  2025-01-20, 2025-01-18 and 2025-01-15 alone: the second document of
  \<^verbatim>\<open>quick-start.mdx\<close> is dated 2025-01-30.
\<close>

theorem C10_seven_dates_counterexample:
  "quick_start_mdx_tail \<in> set post_files
   \<and> map_of quick_start_mdx_tail ''publishedAt'' = Some ''2025-01-30''
   \<and> ''2025-01-30'' \<notin> set [''2025-02-02'', ''2025-01-28'', ''2025-01-25'', ''2025-01-22'',
                             ''2025-01-20'', ''2025-01-18'', ''2025-01-15'']"
  by (simp add: post_files_def quick_start_mdx_tail_def)

end
